theory Spec2Isabelle
  imports Main "HOL-Library.Char_ord" "HOL-Library.List_Lexorder" "HOL-Library.Multiset"
begin

section \<open>The catalogue service: data model\<close>

text \<open>
  The service is the class \<open>CatalogueServiceApp\<close> of \<^verbatim>\<open>catalogue/src/app.js\<close>; a second
  variant of the same class is the other source file. Both are embedded here: the
  definitions without suffix follow \<^verbatim>\<open>app.js\<close>, the definitions with suffix \<open>_v0\<close> follow
  the other file.

  A product is a document of the store. The service never looks inside one; the fields are
  the ones of the fixture of the test suite.
\<close>

record product =
  sku :: string
  name :: string
  categories :: "string list"

text \<open>
  What a store call or a property access throws: an error object. Reading a method of an
  undefined \<open>this.collection\<close> throws a \<open>TypeError\<close>; a store call rejects with an error
  of the driver, which may refer back to itself through the objects it holds
  (\<open>CyclicError\<close>). \<open>JSON.stringify\<close> serialises the first two and throws on the third.
\<close>

datatype cause = TypeError string | StoreError string | CyclicError string

fun serialisable :: "cause \<Rightarrow> bool" where
  "serialisable (TypeError m) = True"
| "serialisable (StoreError m) = True"
| "serialisable (CyclicError m) = False"

text \<open>
  The filter objects the handlers build: \<open>{}\<close>, \<open>{ field: value }\<close> and
  \<open>{ $text: { $search: value } }\<close>. A sort object \<open>{ name: 1 }\<close> is a field and a direction.
\<close>

datatype query_filter = MatchAll | FieldEq string string | TextSearch string

type_synonym sort_spec = "string \<times> int"

text \<open>
  The collection handle is an object of the database driver (or the mock that a test
  injects). The handlers use three of its operations: \<open>find(f)[.sort(s)].toArray()\<close>,
  \<open>findOne(f)\<close> and \<open>distinct(field)\<close>. Each one either resolves (\<open>Inr\<close>) or throws or
  rejects (\<open>Inl\<close>); \<open>findOne\<close> resolves to \<open>null\<close> (\<open>None\<close>) when no document matches.
\<close>

record mongo_collection =
  coll_find :: "query_filter \<Rightarrow> sort_spec option \<Rightarrow> cause + product list"
  coll_findOne :: "query_filter \<Rightarrow> cause + product option"
  coll_distinct :: "string \<Rightarrow> cause + string list"

datatype store_call = Find query_filter "sort_spec option" | FindOne query_filter | Distinct string

record database =
  db_collection :: "string \<Rightarrow> mongo_collection"

record mongo_client =
  client_db :: "string \<Rightarrow> database"

datatype log_entry =
    LogInfo string
  | LogConnectError cause string
  | ReqWarn nat "(string \<times> string) list"
  | ReqError nat "cause option" "(string \<times> string) list"
  | ReqPlainError string cause

text \<open>
  The fields of a \<open>CatalogueServiceApp\<close> instance. \<open>collection\<close> and \<open>db\<close> are undefined
  (\<open>None\<close>) until they are assigned. Four fields record what the instance has asked of
  its environment: \<open>logger\<close> is what was written to the process logger, \<open>timers\<close> holds the
  delay of every pending \<open>setTimeout(tryConnect, delay)\<close>, \<open>connecting\<close> counts the calls of
  \<open>MongoClient.connect\<close> that have not settled yet, and \<open>connect_calls\<close> lists the URL of
  every call of \<open>MongoClient.connect\<close> made so far.
\<close>

record app =
  mongoConnected :: bool
  mongoHost :: "string option"
  mongoUrl :: string
  db :: "database option"
  collection :: "mongo_collection option"
  logger :: "log_entry list"
  timers :: "nat list"
  connecting :: nat
  connect_calls :: "string list"

section \<open>Requests and responses\<close>

datatype request =
    GetHealth
  | GetProducts
  | GetProduct string
  | GetProductsCat string
  | GetCategories
  | GetSearch
  | GetSearchText string

datatype body =
    Text string
  | Health string bool
  | Products "product list"
  | Product product
  | Strings "string list"
  | Thrown cause

text \<open>
  The callback handed to \<open>setTimeout\<close> by the handler of \<open>/product/:sku\<close>; the closure
  captures \<open>req.params.sku\<close>.
\<close>

datatype task = SkuLookup string

text \<open>
  One request being served: the \<open>req\<close>/\<open>res\<close> pair of Express. \<open>statusCode\<close> is
  \<open>res.statusCode\<close> (200 until \<open>res.status\<close> sets it), \<open>sent\<close> is the body written by
  \<open>res.send\<close> or \<open>res.json\<close> (\<open>None\<close>: nothing has been sent to the client), \<open>req_log\<close>
  is what went to \<open>req.log\<close>, \<open>calls\<close> lists the store operations invoked for the
  request, \<open>deferred\<close> holds the callbacks handed to \<open>setTimeout\<close>, and \<open>unhandled\<close>
  collects rejections that no \<open>catch\<close> took.
\<close>

record exchange =
  statusCode :: nat
  sent :: "body option"
  req_log :: "log_entry list"
  calls :: "store_call list"
  deferred :: "task list"
  unhandled :: "cause list"

definition new_exchange :: exchange where
  "new_exchange =
     \<lparr>statusCode = 200, sent = None, req_log = [], calls = [], deferred = [], unhandled = []\<rparr>"

definition status :: "nat \<Rightarrow> exchange \<Rightarrow> exchange" where
  "status c x = x\<lparr>statusCode := c\<rparr>"

definition send :: "body \<Rightarrow> exchange \<Rightarrow> exchange" where
  "send b x = x\<lparr>sent := Some b\<rparr>"

definition json :: "body \<Rightarrow> exchange \<Rightarrow> exchange" where
  "json b x = x\<lparr>sent := Some b\<rparr>"

definition response :: "exchange \<Rightarrow> (nat \<times> body) option" where
  "response x = (case sent x of None \<Rightarrow> None | Some b \<Rightarrow> Some (statusCode x, b))"

definition logWarn :: "(string \<times> string) list \<Rightarrow> exchange \<Rightarrow> exchange" where
  "logWarn details x = x\<lparr>req_log := req_log x @ [ReqWarn (statusCode x) details]\<rparr>"

definition logError :: "cause option \<Rightarrow> (string \<times> string) list \<Rightarrow> exchange \<Rightarrow> exchange" where
  "logError err details x = x\<lparr>req_log := req_log x @ [ReqError (statusCode x) err details]\<rparr>"

definition setTimeout :: "task \<Rightarrow> exchange \<Rightarrow> (cause + unit) \<times> exchange" where
  "setTimeout t x = (Inr (), x\<lparr>deferred := deferred x @ [t]\<rparr>)"

subsection \<open>Calls on \<open>this.collection\<close>\<close>

text \<open>
  A call \<open>this.collection.find(...)\<close> on an undefined \<open>this.collection\<close> throws before any
  store operation starts; on a bound handle the operation is invoked and recorded.
\<close>

definition undefined_collection :: cause where
  "undefined_collection = TypeError ''Cannot read properties of undefined''"

definition collection_find ::
  "app \<Rightarrow> query_filter \<Rightarrow> sort_spec option \<Rightarrow> exchange \<Rightarrow> (cause + product list) \<times> exchange" where
  "collection_find a f s x =
     (case collection a of
        None \<Rightarrow> (Inl undefined_collection, x)
      | Some c \<Rightarrow> (coll_find c f s, x\<lparr>calls := calls x @ [Find f s]\<rparr>))"

definition collection_findOne ::
  "app \<Rightarrow> query_filter \<Rightarrow> exchange \<Rightarrow> (cause + product option) \<times> exchange" where
  "collection_findOne a f x =
     (case collection a of
        None \<Rightarrow> (Inl undefined_collection, x)
      | Some c \<Rightarrow> (coll_findOne c f, x\<lparr>calls := calls x @ [FindOne f]\<rparr>))"

definition collection_distinct ::
  "app \<Rightarrow> string \<Rightarrow> exchange \<Rightarrow> (cause + string list) \<times> exchange" where
  "collection_distinct a fld x =
     (case collection a of
        None \<Rightarrow> (Inl undefined_collection, x)
      | Some c \<Rightarrow> (coll_distinct c fld, x\<lparr>calls := calls x @ [Distinct fld]\<rparr>))"

section \<open>The route handlers of \<^verbatim>\<open>app.js\<close>\<close>

text \<open>
  Every handler but the one of \<open>/health\<close> opens with the same block: when
  \<open>this.mongoConnected\<close> is false it sends 500, logs and returns. The block is written
  once here. So is the \<open>catch\<close> block, which differs between the handlers only in the
  \<open>error_type\<close> it logs.
\<close>

definition dependency_down :: "exchange \<Rightarrow> exchange" where
  "dependency_down x =
     logError None [(''error_type'', ''DEPENDENCY_DOWN''), (''dependency'', ''mongodb'')]
       (send (Text ''database not available'') (status 500 x))"

definition internal_error :: "cause \<Rightarrow> string \<Rightarrow> exchange \<Rightarrow> exchange" where
  "internal_error e error_type x =
     logError (Some e) [(''error_type'', error_type)]
       (send (Text ''internal error'') (status 500 x))"

definition get_health :: "app \<Rightarrow> exchange \<Rightarrow> exchange" where
  "get_health a x = json (Health ''OK'' (mongoConnected a)) x"

definition get_products :: "app \<Rightarrow> exchange \<Rightarrow> exchange" where
  "get_products a x =
     (if \<not> mongoConnected a then dependency_down x
      else
        (case collection_find a MatchAll None x of
           (Inr products, x1) \<Rightarrow> json (Products products) x1
         | (Inl e, x1) \<Rightarrow> internal_error e ''FETCH_PRODUCTS_FAILED'' x1))"

text \<open>
  The \<open>try\<close> block of \<open>/product/:sku\<close> holds one statement, the call of \<open>setTimeout\<close>; the
  lookup itself is the body of the callback, which runs after the handler has returned.
\<close>

definition get_product :: "app \<Rightarrow> string \<Rightarrow> exchange \<Rightarrow> exchange" where
  "get_product a sku_param x =
     (if \<not> mongoConnected a then dependency_down x
      else
        (case setTimeout (SkuLookup sku_param) x of
           (Inr _, x1) \<Rightarrow> x1
         | (Inl e, x1) \<Rightarrow> internal_error e ''FETCH_PRODUCT_FAILED'' x1))"

text \<open>
  The callback is an \<open>async\<close> arrow function: when the awaited \<open>findOne\<close> throws, the
  promise of the callback rejects (\<open>Inl\<close>), and nothing else of its body runs.
\<close>

definition sku_callback :: "app \<Rightarrow> string \<Rightarrow> exchange \<Rightarrow> (cause + unit) \<times> exchange" where
  "sku_callback a sku_param x =
     (case collection_findOne a (FieldEq ''sku'' sku_param) x of
        (Inl e, x1) \<Rightarrow> (Inl e, x1)
      | (Inr None, x1) \<Rightarrow>
          (Inr (), logWarn [(''error_type'', ''SKU_NOT_FOUND''), (''sku'', sku_param)]
                     (send (Text ''SKU not found'') (status 404 x1)))
      | (Inr (Some p), x1) \<Rightarrow> (Inr (), json (Product p) x1))"

definition get_products_cat :: "app \<Rightarrow> string \<Rightarrow> exchange \<Rightarrow> exchange" where
  "get_products_cat a cat x =
     (if \<not> mongoConnected a then dependency_down x
      else
        (case collection_find a (FieldEq ''categories'' cat) (Some (''name'', 1)) x of
           (Inr products, x1) \<Rightarrow>
             (if length products = 0 then
                logWarn [(''error_type'', ''CATEGORY_EMPTY''), (''category'', cat)]
                  (send (Text (''No products for '' @ cat)) (status 404 x1))
              else json (Products products) x1)
         | (Inl e, x1) \<Rightarrow> internal_error e ''FETCH_CATEGORY_FAILED'' x1))"

definition get_categories :: "app \<Rightarrow> exchange \<Rightarrow> exchange" where
  "get_categories a x =
     (if \<not> mongoConnected a then dependency_down x
      else
        (case collection_distinct a ''categories'' x of
           (Inr cats, x1) \<Rightarrow> json (Strings cats) x1
         | (Inl e, x1) \<Rightarrow> internal_error e ''FETCH_CATEGORIES_FAILED'' x1))"

definition get_search :: "app \<Rightarrow> exchange \<Rightarrow> exchange" where
  "get_search a x =
     (if \<not> mongoConnected a then dependency_down x
      else
        (case collection_find a MatchAll None x of
           (Inr products, x1) \<Rightarrow> json (Products products) x1
         | (Inl e, x1) \<Rightarrow> internal_error e ''SEARCH_FAILED'' x1))"

definition get_search_text :: "app \<Rightarrow> string \<Rightarrow> exchange \<Rightarrow> exchange" where
  "get_search_text a text_param x =
     (if \<not> mongoConnected a then dependency_down x
      else
        (case collection_find a (TextSearch text_param) None x of
           (Inr hits, x1) \<Rightarrow> json (Products hits) x1
         | (Inl e, x1) \<Rightarrow> internal_error e ''SEARCH_FAILED'' x1))"

text \<open>The routes registered by \<open>setupRoutes\<close>.\<close>

fun route :: "app \<Rightarrow> request \<Rightarrow> exchange \<Rightarrow> exchange" where
  "route a GetHealth x = get_health a x"
| "route a GetProducts x = get_products a x"
| "route a (GetProduct s) x = get_product a s x"
| "route a (GetProductsCat c) x = get_products_cat a c x"
| "route a GetCategories x = get_categories a x"
| "route a GetSearch x = get_search a x"
| "route a (GetSearchText t) x = get_search_text a t x"

text \<open>
  A timer callback runs from the event loop, outside every \<open>try\<close> block: a rejection of
  its promise is an unhandled rejection, and no response is written for it.
\<close>

fun run_timer :: "app \<Rightarrow> task \<Rightarrow> exchange \<Rightarrow> exchange" where
  "run_timer a (SkuLookup s) x =
     (case sku_callback a s x of
        (Inr _, x1) \<Rightarrow> x1
      | (Inl e, x1) \<Rightarrow> x1\<lparr>unhandled := unhandled x1 @ [e]\<rparr>)"

text \<open>Serving a request: the handler runs, then the callbacks it deferred.\<close>

definition serve :: "app \<Rightarrow> request \<Rightarrow> exchange" where
  "serve a r =
     (let x = route a r new_exchange
      in fold (run_timer a) (deferred x) (x\<lparr>deferred := []\<rparr>))"

section \<open>The route handlers of the second variant\<close>

text \<open>
  The second source file registers the same routes. Its handlers send the availability
  error without logging, log a caught error as \<open>req.log.error('ERROR', e)\<close> and send the
  caught error itself as the body of the 500 response.
\<close>

text \<open>
  \<open>res.send(e)\<close> with a thrown object: Express serialises the object with
  \<open>JSON.stringify\<close> before it writes anything, and the exception of a failed serialisation
  leaves \<open>res.send\<close>.
\<close>

definition not_serialisable :: cause where
  "not_serialisable = TypeError ''Converting circular structure to JSON''"

definition send_thrown :: "cause \<Rightarrow> exchange \<Rightarrow> (cause + unit) \<times> exchange" where
  "send_thrown e x =
     (if serialisable e then (Inr (), send (Thrown e) x) else (Inl not_serialisable, x))"

text \<open>
  The \<open>catch\<close> block of every handler of this variant: \<open>req.log.error('ERROR', e)\<close>, then
  \<open>res.status(500).send(e)\<close>. An exception thrown inside the \<open>catch\<close> block leaves the
  \<open>async\<close> handler: its promise rejects, the router does not look at that promise, and the
  request stays without a response.
\<close>

definition caught_v0 :: "cause \<Rightarrow> exchange \<Rightarrow> exchange" where
  "caught_v0 e x =
     (case send_thrown e (status 500 (x\<lparr>req_log := req_log x @ [ReqPlainError ''ERROR'' e]\<rparr>)) of
        (Inr _, x1) \<Rightarrow> x1
      | (Inl e', x1) \<Rightarrow> x1\<lparr>unhandled := unhandled x1 @ [e']\<rparr>)"

definition not_available_v0 :: "exchange \<Rightarrow> exchange" where
  "not_available_v0 x = send (Text ''database not available'') (status 500 x)"

definition get_health_v0 :: "app \<Rightarrow> exchange \<Rightarrow> exchange" where
  "get_health_v0 a x = json (Health ''OK'' (mongoConnected a)) x"

definition get_products_v0 :: "app \<Rightarrow> exchange \<Rightarrow> exchange" where
  "get_products_v0 a x =
     (if \<not> mongoConnected a then not_available_v0 x
      else
        (case collection_find a MatchAll None x of
           (Inr products, x1) \<Rightarrow> json (Products products) x1
         | (Inl e, x1) \<Rightarrow> caught_v0 e x1))"

definition get_product_v0 :: "app \<Rightarrow> string \<Rightarrow> exchange \<Rightarrow> exchange" where
  "get_product_v0 a sku_param x =
     (if \<not> mongoConnected a then not_available_v0 x
      else
        (case setTimeout (SkuLookup sku_param) x of
           (Inr _, x1) \<Rightarrow> x1
         | (Inl e, x1) \<Rightarrow> caught_v0 e x1))"

definition sku_callback_v0 :: "app \<Rightarrow> string \<Rightarrow> exchange \<Rightarrow> (cause + unit) \<times> exchange" where
  "sku_callback_v0 a sku_param x =
     (case collection_findOne a (FieldEq ''sku'' sku_param) x of
        (Inl e, x1) \<Rightarrow> (Inl e, x1)
      | (Inr (Some p), x1) \<Rightarrow> (Inr (), json (Product p) x1)
      | (Inr None, x1) \<Rightarrow> (Inr (), send (Text ''SKU not found'') (status 404 x1)))"

definition get_products_cat_v0 :: "app \<Rightarrow> string \<Rightarrow> exchange \<Rightarrow> exchange" where
  "get_products_cat_v0 a cat x =
     (if \<not> mongoConnected a then not_available_v0 x
      else
        (case collection_find a (FieldEq ''categories'' cat) (Some (''name'', 1)) x of
           (Inr products, x1) \<Rightarrow>
             (if length products > 0 then json (Products products) x1
              else send (Text (''No products for '' @ cat)) (status 404 x1))
         | (Inl e, x1) \<Rightarrow> caught_v0 e x1))"

definition get_categories_v0 :: "app \<Rightarrow> exchange \<Rightarrow> exchange" where
  "get_categories_v0 a x =
     (if \<not> mongoConnected a then not_available_v0 x
      else
        (case collection_distinct a ''categories'' x of
           (Inr cats, x1) \<Rightarrow> json (Strings cats) x1
         | (Inl e, x1) \<Rightarrow> caught_v0 e x1))"

definition get_search_v0 :: "app \<Rightarrow> exchange \<Rightarrow> exchange" where
  "get_search_v0 a x =
     (if \<not> mongoConnected a then not_available_v0 x
      else
        (case collection_find a MatchAll None x of
           (Inr products, x1) \<Rightarrow> json (Products products) x1
         | (Inl e, x1) \<Rightarrow> caught_v0 e x1))"

definition get_search_text_v0 :: "app \<Rightarrow> string \<Rightarrow> exchange \<Rightarrow> exchange" where
  "get_search_text_v0 a text_param x =
     (if \<not> mongoConnected a then not_available_v0 x
      else
        (case collection_find a (TextSearch text_param) None x of
           (Inr hits, x1) \<Rightarrow> json (Products hits) x1
         | (Inl e, x1) \<Rightarrow> caught_v0 e x1))"

fun route_v0 :: "app \<Rightarrow> request \<Rightarrow> exchange \<Rightarrow> exchange" where
  "route_v0 a GetHealth x = get_health_v0 a x"
| "route_v0 a GetProducts x = get_products_v0 a x"
| "route_v0 a (GetProduct s) x = get_product_v0 a s x"
| "route_v0 a (GetProductsCat c) x = get_products_cat_v0 a c x"
| "route_v0 a GetCategories x = get_categories_v0 a x"
| "route_v0 a GetSearch x = get_search_v0 a x"
| "route_v0 a (GetSearchText t) x = get_search_text_v0 a t x"

fun run_timer_v0 :: "app \<Rightarrow> task \<Rightarrow> exchange \<Rightarrow> exchange" where
  "run_timer_v0 a (SkuLookup s) x =
     (case sku_callback_v0 a s x of
        (Inr _, x1) \<Rightarrow> x1
      | (Inl e, x1) \<Rightarrow> x1\<lparr>unhandled := unhandled x1 @ [e]\<rparr>)"

definition serve_v0 :: "app \<Rightarrow> request \<Rightarrow> exchange" where
  "serve_v0 a r =
     (let x = route_v0 a r new_exchange
      in fold (run_timer_v0 a) (deferred x) (x\<lparr>deferred := []\<rparr>))"

section \<open>Construction and the connection loop\<close>

text \<open>
  The options of the constructor. \<open>mockCollections\<close>, when a caller gives it, is an object;
  the constructor reads its \<open>products\<close> property without a check, so the property may be
  undefined (\<open>None\<close>).
\<close>

record mock_collections =
  products :: "mongo_collection option"

record options =
  opt_mongoHost :: "string option"
  opt_mockCollections :: "mock_collections option"

text \<open>String concatenation with a value that may be \<open>undefined\<close>.\<close>

definition js_string :: "string option \<Rightarrow> string" where
  "js_string v = (case v of None \<Rightarrow> ''undefined'' | Some s \<Rightarrow> s)"

text \<open>
  \<open>tryConnect\<close> up to its \<open>await\<close>: \<open>mongoConnect\<close> calls \<open>MongoClient.connect(this.mongoUrl)\<close>
  and suspends until the driver settles the call.
\<close>

definition tryConnect :: "app \<Rightarrow> app" where
  "tryConnect a =
     a\<lparr>connecting := connecting a + 1, connect_calls := connect_calls a @ [mongoUrl a]\<rparr>"

text \<open>The rest of \<open>mongoConnect\<close>, once the driver has resolved the call with a client.\<close>

definition mongoConnect_resolved :: "mongo_client \<Rightarrow> app \<Rightarrow> app" where
  "mongoConnect_resolved client a =
     (let a1 = a\<lparr>db := Some (client_db client ''catalogue'')\<rparr>;
          a2 = a1\<lparr>collection := Some (db_collection (client_db client ''catalogue'') ''products'')\<rparr>;
          a3 = a2\<lparr>mongoConnected := True\<rparr>
      in a3\<lparr>logger := logger a3 @ [LogInfo ''MongoDB connected'']\<rparr>)"

text \<open>The \<open>catch\<close> block of \<open>tryConnect\<close>, once the driver has rejected the call.\<close>

definition tryConnect_rejected :: "cause \<Rightarrow> app \<Rightarrow> app" where
  "tryConnect_rejected e a =
     (let a1 = a\<lparr>logger := logger a @ [LogConnectError e ''MongoDB connection failed'']\<rparr>
      in a1\<lparr>timers := timers a1 @ [2000]\<rparr>)"

definition startMongoLoop :: "app \<Rightarrow> app" where
  "startMongoLoop a = tryConnect a"

definition constructor :: "options \<Rightarrow> app" where
  "constructor opts =
     (let a = \<lparr>mongoConnected = False,
               mongoHost = opt_mongoHost opts,
               mongoUrl = ''mongodb://'' @ js_string (opt_mongoHost opts) @ '':27017/catalogue'',
               db = None, collection = None, logger = [], timers = [],
               connecting = 0, connect_calls = []\<rparr>
      in (case opt_mockCollections opts of
            None \<Rightarrow> startMongoLoop a
          | Some m \<Rightarrow> (a\<lparr>collection := products m\<rparr>)\<lparr>mongoConnected := True\<rparr>))"

text \<open>
  What the environment does to a running instance: the driver settles an outstanding
  \<open>MongoClient.connect\<close> (with a client, or with an error), or a pending timer elapses and
  its callback \<open>tryConnect\<close> is invoked. An event that is not enabled (no outstanding call,
  no pending timer) cannot happen: \<open>None\<close>.
\<close>

datatype event = ConnectResolved mongo_client | ConnectRejected cause | TimerFired

fun step :: "app \<Rightarrow> event \<Rightarrow> app option" where
  "step a (ConnectResolved client) =
     (if connecting a = 0 then None
      else Some (mongoConnect_resolved client (a\<lparr>connecting := connecting a - 1\<rparr>)))"
| "step a (ConnectRejected e) =
     (if connecting a = 0 then None
      else Some (tryConnect_rejected e (a\<lparr>connecting := connecting a - 1\<rparr>)))"
| "step a TimerFired =
     (case timers a of
        [] \<Rightarrow> None
      | d # ds \<Rightarrow> Some (tryConnect (a\<lparr>timers := ds\<rparr>)))"

fun run :: "app \<Rightarrow> event list \<Rightarrow> app option" where
  "run a [] = Some a"
| "run a (ev # evs) = (case step a ev of None \<Rightarrow> None | Some a' \<Rightarrow> run a' evs)"

section \<open>Stores\<close>

subsection \<open>The mock of the test suite\<close>

text \<open>
  The test suite injects a mock collection over a fixture of two products. Its \<open>find\<close>
  ignores the filter and the sort and resolves to the whole fixture; its \<open>findOne\<close> reads
  the \<open>sku\<close> property of the filter and resolves to the first product with that sku, or
  to \<open>null\<close>; its \<open>distinct\<close> resolves to the two categories.
\<close>

definition fixture :: "product list" where
  "fixture =
     [\<lparr>sku = ''sku1'', name = ''Product1'', categories = [''cat1'']\<rparr>,
      \<lparr>sku = ''sku2'', name = ''Product2'', categories = [''cat2'']\<rparr>]"

definition mock_findOne :: "query_filter \<Rightarrow> product option" where
  "mock_findOne f =
     (case f of
        FieldEq fld v \<Rightarrow> (if fld = ''sku'' then List.find (\<lambda>p. sku p = v) fixture else None)
      | _ \<Rightarrow> None)"

definition mockProductsCollection :: mongo_collection where
  "mockProductsCollection =
     \<lparr>coll_find = (\<lambda>f s. Inr fixture),
      coll_findOne = (\<lambda>f. Inr (mock_findOne f)),
      coll_distinct = (\<lambda>fld. Inr [''cat1'', ''cat2''])\<rparr>"

definition test_options :: options where
  "test_options =
     \<lparr>opt_mongoHost = None,
      opt_mockCollections = Some \<lparr>products = Some mockProductsCollection\<rparr>\<rparr>"

subsection \<open>A store whose every operation fails\<close>

definition failing_collection :: "cause \<Rightarrow> mongo_collection" where
  "failing_collection e =
     \<lparr>coll_find = (\<lambda>f s. Inl e), coll_findOne = (\<lambda>f. Inl e), coll_distinct = (\<lambda>fld. Inl e)\<rparr>"

subsection \<open>A store over a list of products\<close>

text \<open>
  Modelled from the spec: the query semantics of the document store, which is a service
  outside the repository (the handlers only hand it a filter and a sort object). Following
  the table of query semantics of the specification: a lookup on \<open>sku\<close> is an exact match, a
  filter on \<open>categories\<close> selects the products whose \<open>categories\<close> contain the value, a
  sort by \<open>name\<close> with direction 1 is ascending, \<open>distinct\<close> gives the distinct values of
  the field across all products, and a text search is whatever the text index of the store
  decides (the parameter \<open>txt\<close>). Strings are compared byte by byte.
\<close>

fun matches :: "(string \<Rightarrow> product \<Rightarrow> bool) \<Rightarrow> query_filter \<Rightarrow> product \<Rightarrow> bool" where
  "matches txt MatchAll p = True"
| "matches txt (FieldEq fld v) p =
     (if fld = ''sku'' then sku p = v
      else if fld = ''name'' then name p = v
      else if fld = ''categories'' then v \<in> set (categories p)
      else False)"
| "matches txt (TextSearch q) p = txt q p"

fun ordered :: "sort_spec option \<Rightarrow> product list \<Rightarrow> product list" where
  "ordered None ps = ps"
| "ordered (Some (fld, dir)) ps = (if fld = ''name'' \<and> dir = 1 then sort_key name ps else ps)"

definition distinct_values :: "string \<Rightarrow> product list \<Rightarrow> string list" where
  "distinct_values fld ps =
     (if fld = ''categories'' then remdups (concat (map categories ps))
      else if fld = ''sku'' then remdups (map sku ps)
      else if fld = ''name'' then remdups (map name ps)
      else [])"

definition store_collection :: "(string \<Rightarrow> product \<Rightarrow> bool) \<Rightarrow> product list \<Rightarrow> mongo_collection" where
  "store_collection txt ps =
     \<lparr>coll_find = (\<lambda>f s. Inr (ordered s (filter (matches txt f) ps))),
      coll_findOne = (\<lambda>f. Inr (List.find (matches txt f) ps)),
      coll_distinct = (\<lambda>fld. Inr (distinct_values fld ps))\<rparr>"

text \<open>An instance that is connected to a given collection.\<close>

definition connected_to :: "mongo_collection \<Rightarrow> app" where
  "connected_to c =
     constructor \<lparr>opt_mongoHost = None, opt_mockCollections = Some \<lparr>products = Some c\<rparr>\<rparr>"

text \<open>The options with a mock object that has no \<open>products\<close> property.\<close>

definition bare_mock_options :: options where
  "bare_mock_options = \<lparr>opt_mongoHost = None, opt_mockCollections = Some \<lparr>products = None\<rparr>\<rparr>"

subsection \<open>Start-up of the server and a live client\<close>

text \<open>
  \<^verbatim>\<open>server.js\<close> constructs the instance with the host from the environment and no mock.
\<close>

definition server_options :: "string option \<Rightarrow> options" where
  "server_options host = \<lparr>opt_mongoHost = host, opt_mockCollections = None\<rparr>"

text \<open>A client of the driver whose \<open>products\<close> collection is the given one.\<close>

definition client_of :: "mongo_collection \<Rightarrow> mongo_client" where
  "client_of c = \<lparr>client_db = (\<lambda>dbname. \<lparr>db_collection = (\<lambda>cname. c)\<rparr>)\<rparr>"

text \<open>
  The shape of every state of the connection loop: once connected nothing is pending;
  before that, either one call of \<open>MongoClient.connect\<close> is outstanding or one timer of
  2000 ms is pending, never both.
\<close>

definition supervised :: "app \<Rightarrow> bool" where
  "supervised a =
     (if mongoConnected a then connecting a = 0 \<and> timers a = []
      else (connecting a = 1 \<and> timers a = []) \<or> (connecting a = 0 \<and> timers a = [2000]))"

text \<open>Whether an event is the failure of a connect.\<close>

fun rejected :: "event \<Rightarrow> bool" where
  "rejected (ConnectRejected e) = True"
| "rejected (ConnectResolved client) = False"
| "rejected TimerFired = False"

subsection \<open>Observations on a served request\<close>




text \<open>
  A store over three products, two of them in category \<open>cat1\<close> and stored in descending
  order of name.
\<close>

definition shelf :: "product list" where
  "shelf =
     [\<lparr>sku = ''sku2'', name = ''Product2'', categories = [''cat1'', ''cat2'']\<rparr>,
      \<lparr>sku = ''sku3'', name = ''Product3'', categories = [''cat2'']\<rparr>,
      \<lparr>sku = ''sku1'', name = ''Product1'', categories = [''cat1'']\<rparr>]"

section \<open>Properties\<close>

lemmas exchange_defs =
  collection_find_def collection_findOne_def collection_distinct_def
  json_def send_def status_def logError_def logWarn_def setTimeout_def
  new_exchange_def response_def

lemmas handler_defs =
  serve_def get_health_def get_products_def get_product_def get_products_cat_def
  get_categories_def get_search_def get_search_text_def sku_callback_def
  dependency_down_def internal_error_def

lemmas handler_v0_defs =
  serve_v0_def get_health_v0_def get_products_v0_def get_product_v0_def
  get_products_cat_v0_def get_categories_v0_def get_search_v0_def get_search_text_v0_def
  sku_callback_v0_def not_available_v0_def caught_v0_def send_thrown_def

lemmas supervisor_defs =
  constructor_def startMongoLoop_def tryConnect_def mongoConnect_resolved_def
  tryConnect_rejected_def Let_def

subsection \<open>The connection loop\<close>

lemma constructor_flag:
  "mongoConnected (constructor opts) = (opt_mockCollections opts \<noteq> None)"
  by (simp add: supervisor_defs split: option.splits)

lemma connected_to_flag: "mongoConnected (connected_to c)"
  by (simp add: connected_to_def constructor_flag)

lemma connected_to_collection: "collection (connected_to c) = Some c"
  by (simp add: connected_to_def supervisor_defs)

lemma supervised_constructor: "supervised (constructor opts)"
  by (simp add: supervised_def supervisor_defs split: option.splits)

lemma supervised_step:
  assumes "supervised a" and "step a ev = Some a'"
  shows "supervised a'"
  using assms
  by (cases ev) (auto simp add: supervised_def supervisor_defs split: if_splits list.splits)

lemma supervised_run:
  "supervised a \<Longrightarrow> run a evs = Some a' \<Longrightarrow> supervised a'"
proof (induction evs arbitrary: a)
  case Nil
  then show ?case by simp
next
  case (Cons ev evs)
  then show ?case
    by (auto split: option.splits dest: supervised_step)
qed

lemma step_flag:
  assumes "step a ev = Some a'"
  shows "mongoConnected a' = (mongoConnected a \<or> (\<exists>client. ev = ConnectResolved client))"
  using assms
  by (cases ev) (auto simp add: supervisor_defs split: if_splits list.splits)

lemma run_flag:
  "run a evs = Some a' \<Longrightarrow>
   mongoConnected a' = (mongoConnected a \<or> (\<exists>client. ConnectResolved client \<in> set evs))"
proof (induction evs arbitrary: a)
  case Nil
  then show ?case by simp
next
  case (Cons ev evs)
  from Cons.prems obtain b where b: "step a ev = Some b" and r: "run b evs = Some a'"
    by (auto split: option.splits)
  from Cons.IH [OF r] step_flag [OF b] show ?case
    by auto
qed

lemma step_rejected:
  assumes "supervised a" and "step a (ConnectRejected e) = Some a'"
  shows "logger a' = logger a @ [LogConnectError e ''MongoDB connection failed''] \<and>
         timers a' = [2000] \<and> connecting a' = 0 \<and> connect_calls a' = connect_calls a"
  using assms
  by (auto simp add: supervised_def supervisor_defs split: if_splits)

lemma connected_quiescent:
  assumes "supervised a" and "mongoConnected a"
  shows "step a ev = None"
  using assms by (cases ev) (auto simp add: supervised_def)

lemma step_count:
  assumes "step a ev = Some a'"
  shows "length (connect_calls a') + length (timers a') =
         length (connect_calls a) + length (timers a) + (if rejected ev then 1 else 0)"
  using assms
  by (cases ev) (auto simp add: supervisor_defs split: if_splits list.splits)

lemma run_count:
  "run a evs = Some a' \<Longrightarrow>
   length (connect_calls a') + length (timers a') =
   length (connect_calls a) + length (timers a) + length (filter rejected evs)"
proof (induction evs arbitrary: a)
  case Nil
  then show ?case by simp
next
  case (Cons ev evs)
  from Cons.prems obtain b where b: "step a ev = Some b" and r: "run b evs = Some a'"
    by (auto split: option.splits)
  from Cons.IH [OF r] step_count [OF b] show ?case
    by simp
qed

lemma constructor_count:
  "length (connect_calls (constructor opts)) + length (timers (constructor opts)) =
   (if opt_mockCollections opts = None then 1 else 0)"
  by (simp add: supervisor_defs split: option.splits)

lemma step_retry:
  assumes "supervised a" and "step a (ConnectRejected e) = Some a'"
  shows "(\<exists>a''. step a' TimerFired = Some a'' \<and> timers a'' = [] \<and> connecting a'' = 1 \<and>
                connect_calls a'' = connect_calls a @ [mongoUrl a] \<and> \<not> mongoConnected a'') \<and>
         (\<forall>client. step a' (ConnectResolved client) = None) \<and>
         (\<forall>e'. step a' (ConnectRejected e') = None)"
  using assms
  by (auto simp add: supervised_def supervisor_defs split: if_splits)

lemma run_snoc:
  "run a (evs @ [ev]) = (case run a evs of None \<Rightarrow> None | Some b \<Rightarrow> step b ev)"
  by (induction evs arbitrary: a) (auto split: option.splits)

lemma mock_no_events:
  assumes "opt_mockCollections opts = Some m" and "run (constructor opts) evs = Some a"
  shows "evs = [] \<and> a = constructor opts"
proof (cases evs)
  case Nil
  with assms(2) show ?thesis by simp
next
  case (Cons ev rest)
  from assms(1) have "mongoConnected (constructor opts)"
    by (simp add: constructor_flag)
  from connected_quiescent [OF supervised_constructor this]
  have "step (constructor opts) ev = None" .
  with assms(2) Cons show ?thesis by simp
qed

lemma mock_collection:
  assumes "opt_mockCollections opts = Some m"
  shows "collection (constructor opts) = products m"
  using assms by (simp add: supervisor_defs)

lemma connect_binds_collection:
  assumes "opt_mockCollections opts = None" and "run (constructor opts) evs = Some a"
    and "mongoConnected a"
  shows "\<exists>pre client. evs = pre @ [ConnectResolved client] \<and>
           collection a = Some (db_collection (client_db client ''catalogue'') ''products'')"
proof (cases evs rule: rev_cases)
  case Nil
  with assms(2) have "a = constructor opts" by simp
  with assms(1,3) show ?thesis by (simp add: constructor_flag)
next
  case (snoc pre ev)
  with assms(2) obtain b where b: "run (constructor opts) pre = Some b" and s: "step b ev = Some a"
    by (auto simp add: run_snoc split: option.splits)
  have sup: "supervised b"
    using supervised_run [OF supervised_constructor b] .
  have nb: "\<not> mongoConnected b"
  proof
    assume "mongoConnected b"
    from connected_quiescent [OF sup this] have "step b ev = None" .
    with s show False by simp
  qed
  with step_flag [OF s] assms(3) obtain client where ev: "ev = ConnectResolved client"
    by auto
  from s ev have "collection a = Some (db_collection (client_db client ''catalogue'') ''products'')"
    by (auto simp add: supervisor_defs split: if_splits)
  with snoc ev show ?thesis by blast
qed

subsection \<open>The availability gate\<close>

text \<open>
  C1. While the instance is disconnected, every route other than \<open>/health\<close> answers 500
  with the body \<open>database not available\<close>, and no store operation (\<open>find\<close>, \<open>findOne\<close>,
  \<open>distinct\<close>) has been invoked for the request. Both variants of the service do so.
\<close>

theorem C1_disconnected_short_circuit:
  assumes "\<not> mongoConnected a" and "r \<noteq> GetHealth"
  shows "response (serve a r) = Some (500, Text ''database not available'') \<and>
         calls (serve a r) = [] \<and>
         response (serve_v0 a r) = Some (500, Text ''database not available'') \<and>
         calls (serve_v0 a r) = []"
  using assms by (cases r) (simp_all add: handler_defs handler_v0_defs exchange_defs)

theorem C1_disconnected_short_circuit_witness:
  "response (serve (constructor (server_options (Some ''mongodb''))) (GetProductsCat ''cat1''))
     = Some (500, Text ''database not available'') \<and>
   calls (serve (constructor (server_options (Some ''mongodb''))) (GetProductsCat ''cat1'')) = [] \<and>
   response (serve_v0 (constructor (server_options (Some ''mongodb''))) (GetProductsCat ''cat1''))
     = Some (500, Text ''database not available'') \<and>
   calls (serve_v0 (constructor (server_options (Some ''mongodb''))) (GetProductsCat ''cat1'')) = []"
  using C1_disconnected_short_circuit
          [of "constructor (server_options (Some ''mongodb''))" "GetProductsCat ''cat1''"]
  by (simp add: constructor_flag server_options_def)

subsection \<open>Store failures\<close>

text \<open>
  On the routes whose handler awaits the store call inside its \<open>try\<close> block, a failure of
  the call is caught and answered with 500 and the body \<open>internal error\<close>.
\<close>

lemma store_failure_caught_in_try:
  assumes "mongoConnected a" and "collection a = Some (failing_collection e)"
    and "r \<noteq> GetHealth" and "\<forall>s. r \<noteq> GetProduct s"
  shows "response (serve a r) = Some (500, Text ''internal error'')"
  using assms
  by (cases r) (simp_all add: handler_defs exchange_defs failing_collection_def)

text \<open>
  The second variant catches the same failures on the same routes, and sends the caught
  error itself as the body, when the error can be serialised.
\<close>

lemma store_failure_caught_in_try_v0:
  assumes "mongoConnected a" and "collection a = Some (failing_collection e)"
    and "r \<noteq> GetHealth" and "\<forall>s. r \<noteq> GetProduct s" and "serialisable e"
  shows "response (serve_v0 a r) = Some (500, Thrown e)"
  using assms
  by (cases r) (simp_all add: handler_v0_defs exchange_defs failing_collection_def)

text \<open>
  On \<open>/product/:sku\<close>, in both variants, a failure of \<open>findOne\<close> leaves the request
  without a response, whatever the error and the sku.
\<close>

lemma product_lookup_failure_unanswered:
  assumes "mongoConnected a" and "collection a = Some c"
    and "coll_findOne c (FieldEq ''sku'' s) = Inl e"
  shows "response (serve a (GetProduct s)) = None \<and> unhandled (serve a (GetProduct s)) = [e] \<and>
         response (serve_v0 a (GetProduct s)) = None \<and> unhandled (serve_v0 a (GetProduct s)) = [e]"
  using assms by (simp add: handler_defs handler_v0_defs exchange_defs)

text \<open>
  C2. The claim: on every route a failing store call is caught at the handler boundary
  and answered with 500 and a generic body, so that the client always receives a response.
  On \<open>/product/:sku\<close> the code does not do so: \<open>findOne\<close> is awaited inside the callback
  of \<open>setTimeout\<close>, which runs after the \<open>try\<close> block has been left. With a connected
  instance whose store rejects, the request for \<open>/product/sku1\<close> ends with no response
  written, no log entry, and the rejection unhandled.
\<close>

theorem C2_product_lookup_failure_unanswered:
  "response (serve (connected_to (failing_collection (StoreError ''connection closed'')))
              (GetProduct ''sku1'')) = None \<and>
   req_log (serve (connected_to (failing_collection (StoreError ''connection closed'')))
              (GetProduct ''sku1'')) = [] \<and>
   unhandled (serve (connected_to (failing_collection (StoreError ''connection closed'')))
              (GetProduct ''sku1'')) = [StoreError ''connection closed'']"
  by (simp add: handler_defs exchange_defs failing_collection_def
        connected_to_flag connected_to_collection)

subsection \<open>Health\<close>

text \<open>
  C3. For either value of the connectivity flag, \<open>GET /health\<close> answers 200 with the body
  \<open>{app: "OK", mongo: b}\<close> where \<open>b\<close> is the current value of the flag; the handler has no
  availability check and invokes no store operation. Both variants of the service do so.
\<close>

theorem C3_health_always_ok:
  "response (serve a GetHealth) = Some (200, Health ''OK'' (mongoConnected a)) \<and>
   calls (serve a GetHealth) = [] \<and>
   response (serve_v0 a GetHealth) = Some (200, Health ''OK'' (mongoConnected a)) \<and>
   calls (serve_v0 a GetHealth) = []"
  by (simp add: handler_defs handler_v0_defs exchange_defs)

subsection \<open>Results of the read operations\<close>

lemma matches_all: "matches txt MatchAll = (\<lambda>p. True)"
  by (rule ext) simp

lemma matches_sku: "matches txt (FieldEq ''sku'' s) = (\<lambda>p. sku p = s)"
  by (rule ext) simp

lemma matches_categories:
  "matches txt (FieldEq ''categories'' cat) = (\<lambda>p. cat \<in> set (categories p))"
  by (rule ext) simp

lemma matches_text: "matches txt (TextSearch q) = txt q"
  by (rule ext) simp

lemmas store_defs = store_collection_def matches_all matches_sku matches_categories matches_text

text \<open>
  C4. On a connected instance, when the store answers the category query with an empty
  array, \<open>GET /products/:cat\<close> answers 404 with the body \<open>No products for <cat>\<close>; when
  the store answers the text query with an empty array, \<open>GET /search/:text\<close> answers 200
  with the empty array.
\<close>

theorem C4_empty_category_404_empty_search_200:
  assumes "mongoConnected a" and "collection a = Some c"
  shows "(coll_find c (FieldEq ''categories'' cat) (Some (''name'', 1)) = Inr [] \<longrightarrow>
            response (serve a (GetProductsCat cat)) = Some (404, Text (''No products for '' @ cat))) \<and>
         (coll_find c (TextSearch t) None = Inr [] \<longrightarrow>
            response (serve a (GetSearchText t)) = Some (200, Products []))"
  using assms by (simp add: handler_defs exchange_defs)

theorem C4_empty_category_404_empty_search_200_witness:
  "response (serve (connected_to (store_collection (\<lambda>q p. False) fixture)) (GetProductsCat ''cat3''))
     = Some (404, Text ''No products for cat3'') \<and>
   response (serve (connected_to (store_collection (\<lambda>q p. False) fixture)) (GetSearchText ''robot''))
     = Some (200, Products [])"
  using C4_empty_category_404_empty_search_200
          [of "connected_to (store_collection (\<lambda>q p. False) fixture)"
              "store_collection (\<lambda>q p. False) fixture" "''cat3''" "''robot''"]
  by (simp add: connected_to_flag connected_to_collection store_defs fixture_def)

text \<open>
  C5. On an instance connected to a store over the products \<open>ps\<close>, \<open>GET /product/:sku\<close>
  answers 200 with a product of \<open>ps\<close> whose \<open>sku\<close> equals the path parameter when there is
  one, and 404 with the body \<open>SKU not found\<close> when no product of \<open>ps\<close> has that sku.
\<close>

theorem C5_product_by_sku:
  assumes "mongoConnected a" and "collection a = Some (store_collection txt ps)"
  shows "((\<exists>p \<in> set ps. sku p = s) \<longrightarrow>
            (\<exists>p. p \<in> set ps \<and> sku p = s \<and>
                 response (serve a (GetProduct s)) = Some (200, Product p))) \<and>
         ((\<forall>p \<in> set ps. sku p \<noteq> s) \<longrightarrow>
            response (serve a (GetProduct s)) = Some (404, Text ''SKU not found''))"
proof (cases "List.find (\<lambda>p. sku p = s) ps")
  case None
  then have none: "\<forall>p \<in> set ps. sku p \<noteq> s"
    by (auto simp add: find_None_iff)
  from assms None have "response (serve a (GetProduct s)) = Some (404, Text ''SKU not found'')"
    by (simp add: handler_defs exchange_defs store_defs)
  with none show ?thesis by blast
next
  case (Some p)
  then have p: "p \<in> set ps \<and> sku p = s"
    by (auto simp add: find_Some_iff)
  from assms Some have "response (serve a (GetProduct s)) = Some (200, Product p)"
    by (simp add: handler_defs exchange_defs store_defs)
  with p show ?thesis by blast
qed

theorem C5_product_by_sku_witness:
  "(\<exists>p. p \<in> set fixture \<and> sku p = ''sku1'' \<and>
        response (serve (connected_to (store_collection (\<lambda>q p. False) fixture)) (GetProduct ''sku1''))
          = Some (200, Product p)) \<and>
   response (serve (connected_to (store_collection (\<lambda>q p. False) fixture)) (GetProduct ''missing''))
     = Some (404, Text ''SKU not found'')"
  using C5_product_by_sku
          [of "connected_to (store_collection (\<lambda>q p. False) fixture)" "\<lambda>q p. False" fixture "''sku1''"]
        C5_product_by_sku
          [of "connected_to (store_collection (\<lambda>q p. False) fixture)" "\<lambda>q p. False" fixture "''missing''"]
  by (simp add: connected_to_flag connected_to_collection fixture_def)

text \<open>
  C6. On an instance connected to a store over the products \<open>ps\<close>, when at least one
  product has the category among its \<open>categories\<close>, \<open>GET /products/:cat\<close> answers 200 with
  exactly the products of \<open>ps\<close> whose \<open>categories\<close> contain the category, in ascending order
  of \<open>name\<close>.
\<close>

theorem C6_category_listing_sorted:
  assumes "mongoConnected a" and "collection a = Some (store_collection txt ps)"
    and "\<exists>p \<in> set ps. cat \<in> set (categories p)"
  shows "\<exists>bs. response (serve a (GetProductsCat cat)) = Some (200, Products bs) \<and>
              mset bs = mset (filter (\<lambda>p. cat \<in> set (categories p)) ps) \<and>
              sorted (map name bs)"
proof -
  let ?hits = "filter (\<lambda>p. cat \<in> set (categories p)) ps"
  have sel: "filter (matches txt (FieldEq ''categories'' cat)) ps = ?hits"
    by (simp only: matches_categories)
  from assms(3) have "?hits \<noteq> []"
    by (auto simp add: filter_empty_conv)
  then have "length (sort_key name ?hits) \<noteq> 0"
    by simp
  with assms(1,2) sel
  have "response (serve a (GetProductsCat cat)) = Some (200, Products (sort_key name ?hits))"
    by (simp add: handler_defs exchange_defs store_defs)
  moreover have "mset (sort_key name ?hits) = mset ?hits"
    by simp
  moreover have "sorted (map name (sort_key name ?hits))"
    by (rule sorted_sort_key)
  ultimately show ?thesis by blast
qed

text \<open>
  The witness: two of the three products of \<open>shelf\<close> are in \<open>cat1\<close>, stored with
  \<open>Product2\<close> before \<open>Product1\<close>; the response lists \<open>Product1\<close> first.
\<close>

theorem C6_category_listing_sorted_witness:
  "response (serve (connected_to (store_collection (\<lambda>q p. False) shelf)) (GetProductsCat ''cat1''))
     = Some (200, Products
         [\<lparr>sku = ''sku1'', name = ''Product1'', categories = [''cat1'']\<rparr>,
          \<lparr>sku = ''sku2'', name = ''Product2'', categories = [''cat1'', ''cat2'']\<rparr>]) \<and>
   filter (\<lambda>p. ''cat1'' \<in> set (categories p)) shelf =
     [\<lparr>sku = ''sku2'', name = ''Product2'', categories = [''cat1'', ''cat2'']\<rparr>,
      \<lparr>sku = ''sku1'', name = ''Product1'', categories = [''cat1'']\<rparr>]"
proof -
  let ?p1 = "\<lparr>sku = ''sku1'', name = ''Product1'', categories = [''cat1'']\<rparr>"
  let ?p2 = "\<lparr>sku = ''sku2'', name = ''Product2'', categories = [''cat1'', ''cat2'']\<rparr>"
  let ?a = "connected_to (store_collection (\<lambda>q p. False) shelf)"
  have hits: "filter (\<lambda>p. ''cat1'' \<in> set (categories p)) shelf = [?p2, ?p1]"
    by (simp add: shelf_def)
  have some: "\<exists>p \<in> set shelf. ''cat1'' \<in> set (categories p)"
    by (simp add: shelf_def)
  from C6_category_listing_sorted
         [OF connected_to_flag connected_to_collection some, of "\<lambda>q p. False"]
  obtain bs where r: "response (serve ?a (GetProductsCat ''cat1'')) = Some (200, Products bs)"
    and m: "mset bs = mset (filter (\<lambda>p. ''cat1'' \<in> set (categories p)) shelf)"
    and srt: "sorted (map name bs)"
    by blast
  from m hits have m2: "mset bs = {#?p2, ?p1#}" by simp
  then have "length bs = 2"
    by (metis size_mset size_add_mset size_empty numeral_2_eq_2)
  then obtain x y where xy: "bs = [x, y]"
    by (cases bs; cases "tl bs") auto
  from m2 xy have "(x = ?p2 \<and> y = ?p1) \<or> (x = ?p1 \<and> y = ?p2)"
    by (auto simp add: add_eq_conv_ex)
  moreover from srt xy have "name x \<le> name y" by simp
  ultimately have "bs = [?p1, ?p2]"
    using xy by auto
  with r hits show ?thesis by simp
qed

text \<open>
  The handler does no filtering or sorting of its own: on the mock of the test suite,
  whose \<open>find\<close> ignores the filter, the same request is answered with the whole fixture.
\<close>

lemma category_listing_on_test_mock:
  "response (serve (constructor test_options) (GetProductsCat ''cat1'')) = Some (200, Products fixture)"
  by (simp add: handler_defs exchange_defs supervisor_defs test_options_def
        mockProductsCollection_def fixture_def)

text \<open>
  C7. \<open>GET /search\<close> and \<open>GET /products\<close> give the same response in every state of the
  instance and of the store; on an instance connected to a store over the products \<open>ps\<close>
  that response is 200 with all of \<open>ps\<close>, unfiltered and in the order of the store.
\<close>

theorem C7_search_without_text_is_list_all:
  "response (serve a GetSearch) = response (serve a GetProducts) \<and>
   (mongoConnected a \<and> collection a = Some (store_collection txt ps) \<longrightarrow>
      response (serve a GetProducts) = Some (200, Products ps))"
  by (auto simp add: handler_defs exchange_defs store_defs
        split: sum.splits option.splits prod.splits)

theorem C7_search_without_text_is_list_all_witness:
  "response (serve (connected_to (store_collection (\<lambda>q p. False) fixture)) GetSearch)
     = Some (200, Products fixture) \<and>
   response (serve (connected_to (store_collection (\<lambda>q p. False) fixture)) GetProducts)
     = Some (200, Products fixture)"
  using C7_search_without_text_is_list_all
          [of "connected_to (store_collection (\<lambda>q p. False) fixture)" "\<lambda>q p. False" fixture]
  by (simp add: connected_to_flag connected_to_collection)

subsection \<open>Lifecycle of the connectivity flag\<close>

text \<open>
  C8, as the claim states it, says that the flag becomes true only through a successful
  connect. The constructor contradicts it when a mock collection is injected, as the test
  suite does: the instance is connected right after construction, and
  \<open>MongoClient.connect\<close> has never been called.
\<close>

theorem C8_mock_connected_without_connect:
  "run (constructor test_options) [] = Some (constructor test_options) \<and>
   mongoConnected (constructor test_options) \<and>
   connect_calls (constructor test_options) = []"
  by (simp add: supervisor_defs test_options_def)

text \<open>
  C8, amended. Let \<open>a\<close> be a state the instance reaches from its construction. (1) The
  constructor leaves the flag false unless a mock collection is injected, and then it
  leaves it true. (2) The flag is true in \<open>a\<close> exactly when a mock collection was injected
  or a connect has succeeded. (3) From any state whose flag is true, every run ends in a
  state whose flag is true. (4) A connect failure in \<open>a\<close> appends one error entry with the
  cause to the logger and leaves exactly one timer pending, of 2000 ms, with no connect
  outstanding and no new connect issued; the only event that can follow is that timer, and
  when it elapses exactly one new connect is issued, to the URL of the instance, and no
  timer is left. (5) Once the flag is true, no timer is pending, no connect is outstanding
  and no further event of the loop can happen. (6) Until the flag is true, either one
  connect is outstanding or one timer of 2000 ms is pending. (7) Without a mock, the
  connects issued so far and the pending timers together number one more than the failures
  so far: every failure is retried once. (8) With a mock, no event of the loop ever happens
  and no connect is issued.
\<close>

theorem C8_connection_lifecycle:
  assumes "run (constructor opts) evs = Some a"
  shows "mongoConnected (constructor opts) = (opt_mockCollections opts \<noteq> None) \<and>
         mongoConnected a =
           (opt_mockCollections opts \<noteq> None \<or> (\<exists>client. ConnectResolved client \<in> set evs)) \<and>
         (\<forall>b evs' b'. run b evs' = Some b' \<longrightarrow> mongoConnected b \<longrightarrow> mongoConnected b') \<and>
         (\<forall>e a'. step a (ConnectRejected e) = Some a' \<longrightarrow>
            logger a' = logger a @ [LogConnectError e ''MongoDB connection failed''] \<and>
            timers a' = [2000] \<and> connecting a' = 0 \<and> connect_calls a' = connect_calls a \<and>
            (\<exists>a''. step a' TimerFired = Some a'' \<and> timers a'' = [] \<and> connecting a'' = 1 \<and>
                   connect_calls a'' = connect_calls a @ [mongoUrl a] \<and> \<not> mongoConnected a'') \<and>
            (\<forall>client. step a' (ConnectResolved client) = None) \<and>
            (\<forall>e'. step a' (ConnectRejected e') = None)) \<and>
         (mongoConnected a \<longrightarrow>
            timers a = [] \<and> connecting a = 0 \<and> (\<forall>ev. step a ev = None)) \<and>
         (\<not> mongoConnected a \<longrightarrow>
            (connecting a = 1 \<and> timers a = []) \<or> (connecting a = 0 \<and> timers a = [2000])) \<and>
         (opt_mockCollections opts = None \<longrightarrow>
            length (connect_calls a) + length (timers a) = Suc (length (filter rejected evs))) \<and>
         (opt_mockCollections opts \<noteq> None \<longrightarrow> evs = [] \<and> connect_calls a = [])"
proof -
  have sup: "supervised a"
    using supervised_run [OF supervised_constructor assms] .
  have c1: "mongoConnected (constructor opts) = (opt_mockCollections opts \<noteq> None)"
    by (rule constructor_flag)
  have c2: "mongoConnected a =
      (opt_mockCollections opts \<noteq> None \<or> (\<exists>client. ConnectResolved client \<in> set evs))"
    using run_flag [OF assms] c1 by simp
  have c3: "\<forall>b evs' b'. run b evs' = Some b' \<longrightarrow> mongoConnected b \<longrightarrow> mongoConnected b'"
    using run_flag by blast
  have c4: "\<forall>e a'. step a (ConnectRejected e) = Some a' \<longrightarrow>
            logger a' = logger a @ [LogConnectError e ''MongoDB connection failed''] \<and>
            timers a' = [2000] \<and> connecting a' = 0 \<and> connect_calls a' = connect_calls a \<and>
            (\<exists>a''. step a' TimerFired = Some a'' \<and> timers a'' = [] \<and> connecting a'' = 1 \<and>
                   connect_calls a'' = connect_calls a @ [mongoUrl a] \<and> \<not> mongoConnected a'') \<and>
            (\<forall>client. step a' (ConnectResolved client) = None) \<and>
            (\<forall>e'. step a' (ConnectRejected e') = None)"
  proof (intro allI impI)
    fix e a'
    assume s: "step a (ConnectRejected e) = Some a'"
    from step_rejected [OF sup s] step_retry [OF sup s]
    show "logger a' = logger a @ [LogConnectError e ''MongoDB connection failed''] \<and>
          timers a' = [2000] \<and> connecting a' = 0 \<and> connect_calls a' = connect_calls a \<and>
          (\<exists>a''. step a' TimerFired = Some a'' \<and> timers a'' = [] \<and> connecting a'' = 1 \<and>
                 connect_calls a'' = connect_calls a @ [mongoUrl a] \<and> \<not> mongoConnected a'') \<and>
          (\<forall>client. step a' (ConnectResolved client) = None) \<and>
          (\<forall>e'. step a' (ConnectRejected e') = None)"
      by (intro conjI) (elim conjE, assumption)+
  qed
  have c5: "mongoConnected a \<longrightarrow>
            timers a = [] \<and> connecting a = 0 \<and> (\<forall>ev. step a ev = None)"
    using sup connected_quiescent [OF sup] by (auto simp add: supervised_def)
  have c6: "\<not> mongoConnected a \<longrightarrow>
            (connecting a = 1 \<and> timers a = []) \<or> (connecting a = 0 \<and> timers a = [2000])"
    using sup by (auto simp add: supervised_def split: if_splits)
  have c7: "opt_mockCollections opts = None \<longrightarrow>
            length (connect_calls a) + length (timers a) = Suc (length (filter rejected evs))"
    using run_count [OF assms] constructor_count [of opts] by simp
  have c8: "opt_mockCollections opts \<noteq> None \<longrightarrow> evs = [] \<and> connect_calls a = []"
  proof
    assume "opt_mockCollections opts \<noteq> None"
    then obtain m where m: "opt_mockCollections opts = Some m" by auto
    from mock_no_events [OF m assms] have "evs = []" and "a = constructor opts" by simp_all
    moreover from m have "connect_calls (constructor opts) = []"
      by (simp add: supervisor_defs)
    ultimately show "evs = [] \<and> connect_calls a = []" by simp
  qed
  from c1 c2 c3 c4 c5 c6 c7 c8 show ?thesis by (intro conjI)
qed

text \<open>
  The witness: the server starts, the first connect fails, the timer elapses, the second
  connect succeeds; and, on the way, the failure of the first connect and its one retry.
\<close>

theorem C8_connection_lifecycle_witness:
  "(\<exists>a. run (constructor (server_options (Some ''mongodb'')))
            [ConnectRejected (StoreError ''refused''), TimerFired,
             ConnectResolved (client_of mockProductsCollection)] = Some a \<and>
        mongoConnected a \<and> timers a = [] \<and> connecting a = 0 \<and>
        step a TimerFired = None \<and> length (connect_calls a) = 2) \<and>
   (\<exists>a' a''. step (constructor (server_options (Some ''mongodb''))) (ConnectRejected (StoreError ''refused''))
            = Some a' \<and>
         \<not> mongoConnected (constructor (server_options (Some ''mongodb''))) \<and>
         logger a' = [LogConnectError (StoreError ''refused'') ''MongoDB connection failed''] \<and>
         timers a' = [2000] \<and>
         step a' TimerFired = Some a'' \<and> connecting a'' = 1 \<and>
         connect_calls a'' = [''mongodb://mongodb:27017/catalogue'', ''mongodb://mongodb:27017/catalogue''])"
proof -
  let ?a0 = "constructor (server_options (Some ''mongodb''))"
  let ?evs = "[ConnectRejected (StoreError ''refused''), TimerFired,
               ConnectResolved (client_of mockProductsCollection)]"
  have "\<exists>a. run ?a0 ?evs = Some a"
    by (simp add: supervisor_defs server_options_def)
  then obtain a where r: "run ?a0 ?evs = Some a" ..
  have "\<exists>a'. step ?a0 (ConnectRejected (StoreError ''refused'')) = Some a'"
    by (simp add: supervisor_defs server_options_def)
  then obtain a' where s: "step ?a0 (ConnectRejected (StoreError ''refused'')) = Some a'" ..
  have r0: "run ?a0 [] = Some ?a0" by simp
  have l0: "logger ?a0 = []"
    by (simp add: supervisor_defs server_options_def)
  have u0: "connect_calls ?a0 = [''mongodb://mongodb:27017/catalogue'']"
    and m0: "mongoUrl ?a0 = ''mongodb://mongodb:27017/catalogue''"
    by (simp_all add: supervisor_defs server_options_def js_string_def)
  have nomock: "opt_mockCollections (server_options (Some ''mongodb'')) = None"
    by (simp add: server_options_def)
  note after = C8_connection_lifecycle [OF r]
  note before = C8_connection_lifecycle [OF r0]
  from after [THEN conjunct2, THEN conjunct1]
  have m: "mongoConnected a"
    by (simp add: server_options_def)
  from after [THEN conjunct2, THEN conjunct2, THEN conjunct2, THEN conjunct2, THEN conjunct1] m
  have q: "timers a = [] \<and> connecting a = 0 \<and> (\<forall>ev. step a ev = None)"
    by (rule mp)
  from q have t: "timers a = []" and cn: "connecting a = 0" and st: "step a TimerFired = None"
    by simp_all
  from after [THEN conjunct2, THEN conjunct2, THEN conjunct2, THEN conjunct2, THEN conjunct2,
              THEN conjunct2, THEN conjunct1] nomock
  have "length (connect_calls a) + length (timers a) = Suc (length (filter rejected ?evs))"
    by (rule mp)
  with t have n: "length (connect_calls a) = 2"
    by simp
  from before [THEN conjunct1]
  have d: "\<not> mongoConnected ?a0"
    by (simp add: server_options_def)
  note fail = before [THEN conjunct2, THEN conjunct2, THEN conjunct2, THEN conjunct1,
                      rule_format, OF s]
  from fail [THEN conjunct1] have lg:
    "logger a' = [LogConnectError (StoreError ''refused'') ''MongoDB connection failed'']"
    by (simp add: l0)
  from fail [THEN conjunct2, THEN conjunct1] have tm: "timers a' = [2000]" .
  from fail [THEN conjunct2, THEN conjunct2, THEN conjunct2, THEN conjunct2, THEN conjunct1]
  obtain a'' where s2: "step a' TimerFired = Some a''" and c2: "connecting a'' = 1"
    and u2: "connect_calls a'' = connect_calls ?a0 @ [mongoUrl ?a0]"
    by blast
  from u2 have u2': "connect_calls a'' =
      [''mongodb://mongodb:27017/catalogue'', ''mongodb://mongodb:27017/catalogue'']"
    by (simp only: u0 m0 append.simps)
  have first: "\<exists>a. run ?a0 ?evs = Some a \<and> mongoConnected a \<and> timers a = [] \<and>
                   connecting a = 0 \<and> step a TimerFired = None \<and> length (connect_calls a) = 2"
    using r m t cn st n by (intro exI conjI)
  have second: "\<exists>a' a''. step ?a0 (ConnectRejected (StoreError ''refused'')) = Some a' \<and>
                     \<not> mongoConnected ?a0 \<and>
                     logger a' = [LogConnectError (StoreError ''refused'') ''MongoDB connection failed''] \<and>
                     timers a' = [2000] \<and>
                     step a' TimerFired = Some a'' \<and> connecting a'' = 1 \<and>
                     connect_calls a'' =
                       [''mongodb://mongodb:27017/catalogue'', ''mongodb://mongodb:27017/catalogue'']"
    using s d lg tm s2 c2 u2' by (intro exI conjI)
  from first second show ?thesis by (rule conjI)
qed

subsection \<open>The collection handle of a connected instance\<close>

lemma bound_one_call:
  assumes "mongoConnected a" and "collection a = Some c" and "r \<noteq> GetHealth"
  shows "length (calls (serve a r)) = 1"
  using assms
  by (cases r)
     (auto simp add: handler_defs exchange_defs split: sum.splits option.splits prod.splits)

lemma unbound_no_call:
  assumes "collection a = None"
  shows "calls (serve a r) = []"
  using assms
  by (cases r)
     (auto simp add: handler_defs exchange_defs split: sum.splits option.splits prod.splits)

text \<open>
  C9, as the claim states it, says that a true flag comes with a bound collection handle.
  The constructor contradicts it for a mock object without a \<open>products\<close> property: it
  assigns the undefined property and sets the flag. The instance is then connected with
  an undefined handle, and \<open>GET /products\<close> is answered 500 \<open>internal error\<close> from the
  \<open>catch\<close> block, with no store operation invoked.
\<close>

theorem C9_mock_without_products_unbound:
  "run (constructor bare_mock_options) [] = Some (constructor bare_mock_options) \<and>
   mongoConnected (constructor bare_mock_options) \<and>
   collection (constructor bare_mock_options) = None \<and>
   response (serve (constructor bare_mock_options) GetProducts) = Some (500, Text ''internal error'') \<and>
   calls (serve (constructor bare_mock_options) GetProducts) = []"
  by (simp add: supervisor_defs bare_mock_options_def handler_defs exchange_defs)

text \<open>
  C9, amended. Let \<open>a\<close> be a state the instance reaches from its construction, with the
  flag true. (1) With an injected mock no event of the loop has happened, and the handle
  is the \<open>products\<close> property of the mock. (2) Without a mock, the last event is the one
  successful connect, and the handle is the \<open>products\<close> collection of the \<open>catalogue\<close>
  database of its client. (3) Unless a mock without a \<open>products\<close> property was injected,
  the handle is defined, and every request other than \<open>/health\<close> invokes exactly one store
  operation. (4) When the handle is undefined, no request invokes a store operation.
\<close>

theorem C9_connected_collection_assigned:
  assumes "run (constructor opts) evs = Some a" and "mongoConnected a"
  shows "(\<forall>m. opt_mockCollections opts = Some m \<longrightarrow> evs = [] \<and> collection a = products m) \<and>
         (opt_mockCollections opts = None \<longrightarrow>
            (\<exists>pre client. evs = pre @ [ConnectResolved client] \<and>
               collection a = Some (db_collection (client_db client ''catalogue'') ''products''))) \<and>
         ((\<forall>m. opt_mockCollections opts = Some m \<longrightarrow> products m \<noteq> None) \<longrightarrow>
            (\<exists>c. collection a = Some c) \<and>
            (\<forall>r. r \<noteq> GetHealth \<longrightarrow> length (calls (serve a r)) = 1)) \<and>
         (collection a = None \<longrightarrow> (\<forall>r. calls (serve a r) = []))"
proof -
  have c1: "\<forall>m. opt_mockCollections opts = Some m \<longrightarrow> evs = [] \<and> collection a = products m"
    using mock_no_events [OF _ assms(1)] mock_collection by blast
  have c2: "opt_mockCollections opts = None \<longrightarrow>
            (\<exists>pre client. evs = pre @ [ConnectResolved client] \<and>
               collection a = Some (db_collection (client_db client ''catalogue'') ''products''))"
    using connect_binds_collection [OF _ assms] by blast
  have c3: "(\<forall>m. opt_mockCollections opts = Some m \<longrightarrow> products m \<noteq> None) \<longrightarrow>
            (\<exists>c. collection a = Some c) \<and>
            (\<forall>r. r \<noteq> GetHealth \<longrightarrow> length (calls (serve a r)) = 1)"
  proof
    assume h: "\<forall>m. opt_mockCollections opts = Some m \<longrightarrow> products m \<noteq> None"
    have "\<exists>c. collection a = Some c"
    proof (cases "opt_mockCollections opts")
      case None
      with c2 show ?thesis by blast
    next
      case (Some m)
      with c1 h show ?thesis by auto
    qed
    then obtain c where c: "collection a = Some c" ..
    from bound_one_call [OF assms(2) c] c
    show "(\<exists>c. collection a = Some c) \<and>
          (\<forall>r. r \<noteq> GetHealth \<longrightarrow> length (calls (serve a r)) = 1)"
      by blast
  qed
  have c4: "collection a = None \<longrightarrow> (\<forall>r. calls (serve a r) = [])"
    using unbound_no_call by blast
  from c1 c2 c3 c4 show ?thesis by (intro conjI)
qed


theorem C9_connected_collection_assigned_witness:
  "\<exists>a. run (constructor (server_options None))
           [ConnectRejected (StoreError ''refused''), TimerFired,
            ConnectResolved (client_of mockProductsCollection)] = Some a \<and>
        mongoConnected a \<and> collection a = Some mockProductsCollection \<and>
        length (calls (serve a (GetProduct ''sku1''))) = 1"
proof -
  let ?a0 = "constructor (server_options None)"
  let ?evs = "[ConnectRejected (StoreError ''refused''), TimerFired,
               ConnectResolved (client_of mockProductsCollection)]"
  have "\<exists>a. run ?a0 ?evs = Some a \<and> mongoConnected a"
    by (simp add: supervisor_defs server_options_def)
  then obtain a where r: "run ?a0 ?evs = Some a" and m: "mongoConnected a" by blast
  note inst = C9_connected_collection_assigned [OF r m]
  have nomock: "opt_mockCollections (server_options None) = None"
    by (simp add: server_options_def)
  from inst [THEN conjunct2, THEN conjunct1] nomock
  obtain pre client where e: "?evs = pre @ [ConnectResolved client]"
    and c: "collection a = Some (db_collection (client_db client ''catalogue'') ''products'')"
    by blast
  have "?evs = [ConnectRejected (StoreError ''refused''), TimerFired] @
               [ConnectResolved (client_of mockProductsCollection)]"
    by simp
  with e have "client = client_of mockProductsCollection"
    by (simp only: append1_eq_conv event.inject)
  with c have c': "collection a = Some mockProductsCollection"
    by (simp add: client_of_def)
  from inst [THEN conjunct2, THEN conjunct2, THEN conjunct1] nomock
  have "\<forall>r. r \<noteq> GetHealth \<longrightarrow> length (calls (serve a r)) = 1"
    by simp
  then have one: "length (calls (serve a (GetProduct ''sku1''))) = 1"
    by simp
  from r m c' one show ?thesis by (intro exI conjI)
qed

subsection \<open>The two variants\<close>





end
